theory Spec2Isabelle
  imports Main "HOL-Library.Sublist"
begin

section \<open>Status classification (getStatusColor of both pages)\<close>

text \<open>
  Both pages carry a function \<open>getStatusColor\<close>: a \<open>switch\<close> over the status string
  that returns a string of style classes. The two functions are modelled one by one,
  case by case in the order of the source; the \<open>default\<close> arm is the last \<open>else\<close>.
\<close>

definition defaultTag :: string where
  "defaultTag = ''bg-muted text-muted-foreground''"

text \<open>client-dashboard.tsx, lines 101-113.\<close>

definition getStatusColor_dashboard :: "string \<Rightarrow> string" where
  "getStatusColor_dashboard status =
     (if status = ''planning'' then ''bg-gray-100 text-gray-700 dark:bg-gray-800 dark:text-gray-300''
      else if status = ''active'' then ''bg-blue-100 text-blue-700 dark:bg-blue-950 dark:text-blue-300''
      else if status = ''on-hold'' then ''bg-yellow-100 text-yellow-700 dark:bg-yellow-950 dark:text-yellow-300''
      else if status = ''completed'' then ''bg-green-100 text-green-700 dark:bg-green-950 dark:text-green-300''
      else if status = ''draft'' then ''bg-gray-100 text-gray-700 dark:bg-gray-800 dark:text-gray-300''
      else if status = ''sent'' then ''bg-blue-100 text-blue-700 dark:bg-blue-950 dark:text-blue-300''
      else if status = ''paid'' then ''bg-green-100 text-green-700 dark:bg-green-950 dark:text-green-300''
      else if status = ''overdue'' then ''bg-red-100 text-red-700 dark:bg-red-950 dark:text-red-300''
      else ''bg-muted text-muted-foreground'')"

text \<open>projects.tsx, lines 147-155.\<close>

definition getStatusColor_projects :: "string \<Rightarrow> string" where
  "getStatusColor_projects status =
     (if status = ''planning'' then ''bg-blue-100 text-blue-700 dark:bg-blue-950 dark:text-blue-300''
      else if status = ''active'' then ''bg-green-100 text-green-700 dark:bg-green-950 dark:text-green-300''
      else if status = ''on-hold'' then ''bg-yellow-100 text-yellow-700 dark:bg-yellow-950 dark:text-yellow-300''
      else if status = ''completed'' then ''bg-purple-100 text-purple-700 dark:bg-purple-950 dark:text-purple-300''
      else ''bg-muted text-muted-foreground'')"

text \<open>The status enumerations of the data model.\<close>

definition projectStatuses :: "string list" where
  "projectStatuses = [''planning'', ''active'', ''on-hold'', ''completed'']"

definition invoiceStatuses :: "string list" where
  "invoiceStatuses = [''draft'', ''sent'', ''paid'', ''overdue'']"

section \<open>JavaScript values used by the pages\<close>

text \<open>
  A field typed \<open>string | null\<close> (or optional) is a \<open>string option\<close>: \<open>None\<close> is
  \<open>null\<close>/\<open>undefined\<close>. \<open>x || d\<close> yields \<open>d\<close> when \<open>x\<close> is falsy, that is absent
  or the empty string; \<open>x ?? d\<close> yields \<open>d\<close> only when \<open>x\<close> is absent.
\<close>

definition truthy :: "string option \<Rightarrow> bool" where
  "truthy x = (case x of None \<Rightarrow> False | Some s \<Rightarrow> s \<noteq> [])"

definition orElse :: "string option \<Rightarrow> string \<Rightarrow> string" where
  "orElse x d = (case x of None \<Rightarrow> d | Some s \<Rightarrow> if s = [] then d else s)"

definition nullish :: "'a option \<Rightarrow> 'a \<Rightarrow> 'a" where
  "nullish x d = (case x of None \<Rightarrow> d | Some v \<Rightarrow> v)"

text \<open>Decimal text of an integer, as \<open>String(n)\<close> and React's text rendering give it.\<close>

definition digitChar :: "nat \<Rightarrow> char" where
  "digitChar n = ''0123456789'' ! (n mod 10)"

function showNat :: "nat \<Rightarrow> string" where
  "showNat n = (if n < 10 then [digitChar n] else showNat (n div 10) @ [digitChar n])"
  by pat_completeness auto
termination
  by (relation "measure id") auto

declare showNat.simps [simp del]

definition showInt :: "int \<Rightarrow> string" where
  "showInt i = (if i < 0 then CHR ''-'' # showNat (nat (- i)) else showNat (nat i))"

text \<open>\<open>String.prototype.padStart(k, "0")\<close> on the decimal text of a number.\<close>

definition padZero :: "nat \<Rightarrow> nat \<Rightarrow> string" where
  "padZero k n = replicate (k - length (showNat n)) CHR ''0'' @ showNat n"

text \<open>\<open>s.split(sep)\<close> for a one-character separator, and \<open>xs[0]\<close>.\<close>

fun split :: "char \<Rightarrow> string \<Rightarrow> string list" where
  "split sep [] = [[]]"
| "split sep (c # cs) =
     (if c = sep then [] # split sep cs
      else (case split sep cs of [] \<Rightarrow> [[c]] | w # ws \<Rightarrow> (c # w) # ws))"

fun index0 :: "'a list \<Rightarrow> 'a option" where
  "index0 [] = None"
| "index0 (x # xs) = Some x"

text \<open>
  A \<open>Date\<close> object is either the invalid date or a time value, held here by its UTC
  fields (year, month 1-12, day, hours, minutes, seconds, milliseconds), which is all
  \<open>toISOString\<close> reads. \<open>toISOString\<close> throws a \<open>RangeError\<close> on the invalid date;
  years outside 0..9999 are written with a sign and six digits.
\<close>

datatype JsDate =
  InvalidDate
  | UtcDate (utcYear: int) (utcMonth: nat) (utcDay: nat)
      (utcHours: nat) (utcMinutes: nat) (utcSeconds: nat) (utcMilliseconds: nat)

datatype JsError = RangeError

definition isoYear :: "int \<Rightarrow> string" where
  "isoYear y =
     (if 0 \<le> y \<and> y \<le> 9999 then padZero 4 (nat y)
      else (if y < 0 then ''-'' else ''+'') @ padZero 6 (nat \<bar>y\<bar>))"

definition toISOString :: "JsDate \<Rightarrow> JsError + string" where
  "toISOString d =
     (case d of
        InvalidDate \<Rightarrow> Inl RangeError
      | UtcDate y mo dd h mi s ms \<Rightarrow>
          Inr (isoYear y @ ''-'' @ padZero 2 mo @ ''-'' @ padZero 2 dd @ ''T'' @
               padZero 2 h @ '':'' @ padZero 2 mi @ '':'' @ padZero 2 s @ ''.'' @
               padZero 3 ms @ ''Z''))"

section \<open>Data model\<close>

text \<open>
  Modelled from the spec: the types \<open>Project\<close>, \<open>Invoice\<close> and \<open>ProjectCredentials\<close>
  of \<open>shared/schema\<close> are not among the sources; their fields are those of the spec's
  data model and those the pages read. A deadline arrives either as a string (the JSON
  of the API) or as a \<open>Date\<close>; \<open>handleEdit\<close> tests for both.
\<close>

datatype Deadline = DeadlineString string | DeadlineDate JsDate

record Project =
  p_id :: string
  p_clientId :: string
  p_name :: string
  p_description :: "string option"
  p_status :: string
  p_budget :: "string option"
  p_progress :: "int option"
  p_deadline :: "Deadline option"
  p_shortVideoUrl :: "string option"
  p_fullFeatureVideoUrl :: "string option"
  p_hostingLink :: "string option"
  p_adminLoginLink :: "string option"
  p_adminUsername :: "string option"
  p_adminPassword :: "string option"
  p_credentialsNotes :: "string option"

record Invoice =
  i_id :: string
  i_invoiceNumber :: string
  i_amount :: string
  i_dueDate :: string
  i_status :: string

record ProjectCredentials =
  c_id :: string
  c_projectName :: string
  c_thumbnailUrl :: "string option"
  c_hostingPlatform :: "string option"
  c_shortDescription :: "string option"
  c_liveLink :: "string option"
  c_adminPanelLink :: "string option"
  c_databaseUrl :: "string option"
  c_serverCredentials :: "string option"
  c_shortVideoUrl :: "string option"
  c_fullVideoUrl :: "string option"

text \<open>
  \<open>ProjectFormData\<close> (projects.tsx, lines 22-33): the insert schema of a project with
  the deadline as an optional string and the seven optional video and credential strings.
\<close>

record ProjectFormData =
  f_clientId :: string
  f_name :: string
  f_description :: "string option"
  f_status :: string
  f_budget :: "string option"
  f_progress :: "int option"
  f_deadline :: "string option"
  f_shortVideoUrl :: "string option"
  f_fullFeatureVideoUrl :: "string option"
  f_hostingLink :: "string option"
  f_adminLoginLink :: "string option"
  f_adminUsername :: "string option"
  f_adminPassword :: "string option"
  f_credentialsNotes :: "string option"

section \<open>The projects page (projects.tsx)\<close>

text \<open>
  The component's state: the three \<open>useState\<close> cells, the values held by the form, and
  the toasts shown so far (the effect of \<open>toast\<close>).
\<close>

record Toast =
  t_title :: string
  t_description :: "string option"
  t_variant :: "string option"

record PageState =
  "open" :: bool
  editingProject :: "Project option"
  showPassword :: bool
  form :: ProjectFormData
  toasts :: "Toast list"

text \<open>The form's \<open>defaultValues\<close> (lines 78-92); the deadline is not among them.\<close>

definition defaultValues :: ProjectFormData where
  "defaultValues =
     \<lparr> f_clientId = '''', f_name = '''', f_description = Some '''', f_status = ''planning'',
       f_budget = Some ''0'', f_progress = Some 0, f_deadline = None,
       f_shortVideoUrl = Some '''', f_fullFeatureVideoUrl = Some '''',
       f_hostingLink = Some '''', f_adminLoginLink = Some '''', f_adminUsername = Some '''',
       f_adminPassword = Some '''', f_credentialsNotes = Some '''' \<rparr>"

definition initialState :: PageState where
  "initialState =
     \<lparr> open = False, editingProject = None, showPassword = False,
       form = defaultValues, toasts = [] \<rparr>"

text \<open>
  The deadline expression of \<open>handleEdit\<close> (line 114): a falsy deadline gives \<open>""\<close>, a
  string passes through, anything else goes through
  \<open>new Date(..).toISOString().split('T')[0]\<close>, which throws on the invalid date.
\<close>

definition editDeadline :: "Deadline option \<Rightarrow> JsError + string option" where
  "editDeadline d =
     (case d of
        None \<Rightarrow> Inr (Some '''')
      | Some (DeadlineString s) \<Rightarrow> Inr (Some (if s = [] then '''' else s))
      | Some (DeadlineDate dt) \<Rightarrow>
          (case toISOString dt of
             Inl e \<Rightarrow> Inl e
           | Inr isoText \<Rightarrow> Inr (index0 (split CHR ''T'' isoText))))"

text \<open>
  \<open>handleEdit\<close> (lines 104-124). The exception of \<open>toISOString\<close> leaves the handler
  before \<open>form.reset\<close> and \<open>setOpen(true)\<close>: the result is then the error.
\<close>

definition handleEdit :: "Project \<Rightarrow> PageState \<Rightarrow> JsError + PageState" where
  "handleEdit project st =
     (case editDeadline (p_deadline project) of
        Inl e \<Rightarrow> Inl e
      | Inr dl \<Rightarrow>
          Inr (st \<lparr> editingProject := Some project,
                    showPassword := False,
                    form :=
                      \<lparr> f_clientId = p_clientId project,
                        f_name = p_name project,
                        f_description = Some (orElse (p_description project) ''''),
                        f_status = p_status project,
                        f_budget = Some (orElse (p_budget project) ''0''),
                        f_progress = Some (nullish (p_progress project) 0),
                        f_deadline = dl,
                        f_shortVideoUrl = Some (orElse (p_shortVideoUrl project) ''''),
                        f_fullFeatureVideoUrl = Some (orElse (p_fullFeatureVideoUrl project) ''''),
                        f_hostingLink = Some (orElse (p_hostingLink project) ''''),
                        f_adminLoginLink = Some (orElse (p_adminLoginLink project) ''''),
                        f_adminUsername = Some (orElse (p_adminUsername project) ''''),
                        f_adminPassword = Some (orElse (p_adminPassword project) ''''),
                        f_credentialsNotes = Some (orElse (p_credentialsNotes project) '''') \<rparr>,
                    open := True \<rparr>))"

text \<open>\<open>handleAddNew\<close> (lines 126-145), the handler of the header's "Add Project" button.\<close>

definition handleAddNew :: "PageState \<Rightarrow> PageState" where
  "handleAddNew st =
     st \<lparr> editingProject := None,
          showPassword := False,
          form :=
            \<lparr> f_clientId = '''', f_name = '''', f_description = Some '''',
              f_status = ''planning'', f_budget = Some ''0'', f_progress = Some 0,
              f_deadline = None,
              f_shortVideoUrl = Some '''', f_fullFeatureVideoUrl = Some '''',
              f_hostingLink = Some '''', f_adminLoginLink = Some '''',
              f_adminUsername = Some '''', f_adminPassword = Some '''',
              f_credentialsNotes = Some '''' \<rparr>,
          open := True \<rparr>"

text \<open>
  The other handlers that write the state: the dialog's Cancel button (line 520,
  \<open>setOpen(false)\<close>), the password toggle (line 486), and the "Add Project" button of
  the empty state (line 539), which is rendered when there is no project (line 531) and
  calls \<open>setOpen(true)\<close> alone.
\<close>

definition cancelClick :: "PageState \<Rightarrow> PageState" where
  "cancelClick st = st \<lparr> open := False \<rparr>"

definition togglePasswordClick :: "PageState \<Rightarrow> PageState" where
  "togglePasswordClick st = st \<lparr> showPassword := \<not> showPassword st \<rparr>"

definition emptyStateShown :: "Project list option \<Rightarrow> bool" where
  "emptyStateShown projects = (case projects of None \<Rightarrow> True | Some ps \<Rightarrow> length ps = 0)"

definition emptyStateAddClick :: "PageState \<Rightarrow> PageState" where
  "emptyStateAddClick st = st \<lparr> open := True \<rparr>"

text \<open>
  The admin-password input (lines 475-481): its \<open>type\<close> attribute, and the text it
  holds (\<open>field.value ?? ""\<close>).
\<close>

definition passwordInputType :: "PageState \<Rightarrow> string" where
  "passwordInputType st = (if showPassword st then ''text'' else ''password'')"

definition passwordInputValue :: "PageState \<Rightarrow> string" where
  "passwordInputValue st = nullish (f_adminPassword (form st)) ''''"

text \<open>
  Typing into the admin-password input: the \<open>onChange\<close> of the field spread into the
  input (line 478) stores the text in the form.
\<close>

definition passwordInputChange :: "string \<Rightarrow> PageState \<Rightarrow> PageState" where
  "passwordInputChange text st =
     st \<lparr> form := (form st) \<lparr> f_adminPassword := Some text \<rparr> \<rparr>"

text \<open>
  The \<open>onError\<close> handlers of the two mutations (lines 56-58 and 71-73): one toast with
  the error's message, nothing else.
\<close>

definition createMutation_onError :: "string \<Rightarrow> PageState \<Rightarrow> PageState" where
  "createMutation_onError message st =
     st \<lparr> toasts := toasts st @
            [\<lparr> t_title = ''Error'', t_description = Some message,
               t_variant = Some ''destructive'' \<rparr>] \<rparr>"

definition updateMutation_onError :: "string \<Rightarrow> PageState \<Rightarrow> PageState" where
  "updateMutation_onError message st =
     st \<lparr> toasts := toasts st @
            [\<lparr> t_title = ''Error'', t_description = Some message,
               t_variant = Some ''destructive'' \<rparr>] \<rparr>"




text \<open>
  A number among JSX children is rendered as its decimal text, \<open>null\<close> and
  \<open>undefined\<close> as nothing. The progress line of a project card (lines 564-569):
  the text \<open>{project.progress}%\<close> and the bar's \<open>project.progress ?? 0\<close>.
\<close>

definition renderNumber :: "int option \<Rightarrow> string" where
  "renderNumber x = (case x of None \<Rightarrow> [] | Some n \<Rightarrow> showInt n)"

definition progressText_projects :: "Project \<Rightarrow> string" where
  "progressText_projects project = renderNumber (p_progress project) @ ''%''"

definition progressBar_projects :: "Project \<Rightarrow> int" where
  "progressBar_projects project = nullish (p_progress project) 0"

section \<open>The client dashboard (client-dashboard.tsx)\<close>

text \<open>
  The statistics of \<open>GET /api/dashboard/stats\<close>. The counts are integers; the two
  amounts are JavaScript numbers of a type \<open>'n\<close> left open, with \<open>toFixed\<close> a parameter
  of \<open>kpis\<close>. A field may be missing from the JSON, which the page's \<open>?.\<close> and \<open>??\<close>
  provide for.
\<close>

record 'n ClientDashboardStats =
  totalProjects :: "int option"
  activeProjects :: "int option"
  completedProjects :: "int option"
  totalInvoices :: "int option"
  totalSpent :: "'n option"
  pendingAmount :: "'n option"
  paidInvoices :: "int option"

datatype KpiValue = NumberValue int | TextValue string

record Kpi =
  kpi_title :: string
  kpi_value :: KpiValue
  kpi_icon :: string
  kpi_color :: string
  kpi_bgColor :: string

text \<open>\<open>stats?.field ?? 0\<close> and \<open>stats?.field?.toFixed(2) ?? "0.00"\<close>.\<close>

definition countOrZero :: "'n ClientDashboardStats option \<Rightarrow> ('n ClientDashboardStats \<Rightarrow> int option) \<Rightarrow> int" where
  "countOrZero stats field =
     nullish (case stats of None \<Rightarrow> None | Some s \<Rightarrow> field s) 0"

definition amountOrZero :: "('n \<Rightarrow> nat \<Rightarrow> string) \<Rightarrow> 'n ClientDashboardStats option \<Rightarrow> ('n ClientDashboardStats \<Rightarrow> 'n option) \<Rightarrow> string" where
  "amountOrZero toFixed stats field =
     nullish
       (case stats of
          None \<Rightarrow> None
        | Some s \<Rightarrow> (case field s of None \<Rightarrow> None | Some x \<Rightarrow> Some (toFixed x 2)))
       ''0.00''"

text \<open>The array \<open>kpis\<close> (lines 56-99).\<close>

definition kpis :: "('n \<Rightarrow> nat \<Rightarrow> string) \<Rightarrow> 'n ClientDashboardStats option \<Rightarrow> Kpi list" where
  "kpis toFixed stats =
     [ \<lparr> kpi_title = ''Total Projects'',
         kpi_value = NumberValue (countOrZero stats totalProjects),
         kpi_icon = ''Briefcase'', kpi_color = ''text-purple-600'',
         kpi_bgColor = ''bg-purple-100 dark:bg-purple-950'' \<rparr>,
       \<lparr> kpi_title = ''Active Projects'',
         kpi_value = NumberValue (countOrZero stats activeProjects),
         kpi_icon = ''Clock'', kpi_color = ''text-blue-600'',
         kpi_bgColor = ''bg-blue-100 dark:bg-blue-950'' \<rparr>,
       \<lparr> kpi_title = ''Completed Projects'',
         kpi_value = NumberValue (countOrZero stats completedProjects),
         kpi_icon = ''CheckCircle'', kpi_color = ''text-green-600'',
         kpi_bgColor = ''bg-green-100 dark:bg-green-950'' \<rparr>,
       \<lparr> kpi_title = ''Total Spent'',
         kpi_value = TextValue (amountOrZero toFixed stats totalSpent),
         kpi_icon = ''DollarSign'', kpi_color = ''text-emerald-600'',
         kpi_bgColor = ''bg-emerald-100 dark:bg-emerald-950'' \<rparr>,
       \<lparr> kpi_title = ''Pending Amount'',
         kpi_value = TextValue (amountOrZero toFixed stats pendingAmount),
         kpi_icon = ''AlertCircle'', kpi_color = ''text-orange-600'',
         kpi_bgColor = ''bg-orange-100 dark:bg-orange-950'' \<rparr>,
       \<lparr> kpi_title = ''Paid Invoices'',
         kpi_value = NumberValue (countOrZero stats paidInvoices),
         kpi_icon = ''FileText'', kpi_color = ''text-teal-600'',
         kpi_bgColor = ''bg-teal-100 dark:bg-teal-950'' \<rparr> ]"

text \<open>
  The KPI grid: while the statistics are loading the page returns six placeholder cards
  (lines 115-136), otherwise one card per element of \<open>kpis\<close>, showing its title and its
  \<open>kpi.value\<close> (lines 147-163).
\<close>

datatype KpiGrid = Skeleton "nat list" | KpiCards "(string \<times> KpiValue) list"

definition kpiGrid :: "('n \<Rightarrow> nat \<Rightarrow> string) \<Rightarrow> bool \<Rightarrow> 'n ClientDashboardStats option \<Rightarrow> KpiGrid" where
  "kpiGrid toFixed statsLoading stats =
     (if statsLoading then Skeleton [1, 2, 3, 4, 5, 6]
      else KpiCards (map (\<lambda>kpi. (kpi_title kpi, kpi_value kpi)) (kpis toFixed stats)))"

text \<open>
  \<open>Array.prototype.slice(start, end)\<close>: a negative index counts from the end, and both
  are clamped to the array.
\<close>

definition Array_slice :: "int \<Rightarrow> int \<Rightarrow> 'a list \<Rightarrow> 'a list" where
  "Array_slice start fin xs =
     (let n = int (length xs);
          k = (if start < 0 then max (n + start) 0 else min start n);
          e = (if fin < 0 then max (n + fin) 0 else min fin n)
      in take (nat (e - k)) (drop (nat k) xs))"

text \<open>
  The "Active Projects" panel (lines 172-186): one row per element of
  \<open>projects?.filter(p => p.status === "active").slice(0, 5)\<close>, nothing when the
  projects are absent, and the note "No active projects" when no project is active.
\<close>

record ProjectRow =
  pr_key :: string
  pr_name :: string
  pr_description :: "string option"
  pr_progressBar :: int
  pr_badgeClass :: string
  pr_badgeText :: string

definition activeProjectRow :: "Project \<Rightarrow> ProjectRow" where
  "activeProjectRow project =
     \<lparr> pr_key = p_id project,
       pr_name = p_name project,
       pr_description = p_description project,
       pr_progressBar = nullish (p_progress project) 0,
       pr_badgeClass = ''ml-4 '' @ getStatusColor_dashboard (p_status project),
       pr_badgeText = renderNumber (p_progress project) @ ''%'' \<rparr>"

definition activeProjectsShown :: "Project list option \<Rightarrow> Project list" where
  "activeProjectsShown projects =
     (case projects of
        None \<Rightarrow> []
      | Some ps \<Rightarrow> Array_slice 0 5 (filter (\<lambda>p. p_status p = ''active'') ps))"

definition activeProjectsPanel :: "Project list option \<Rightarrow> ProjectRow list" where
  "activeProjectsPanel projects = map activeProjectRow (activeProjectsShown projects)"

definition noActiveProjectsNote :: "Project list option \<Rightarrow> bool" where
  "noActiveProjectsNote projects =
     (case projects of
        None \<Rightarrow> True
      | Some ps \<Rightarrow> length (filter (\<lambda>p. p_status p = ''active'') ps) = 0)"

text \<open>
  The "Recent Invoices" panel (lines 197-215): one row per element of
  \<open>invoices?.slice(0, 5)\<close>. The due date goes through
  \<open>new Date(..).toLocaleDateString()\<close> and the amount through
  \<open>Number(..).toFixed(2)\<close>; both are parameters.
\<close>

record InvoiceRow =
  ir_key :: string
  ir_invoiceNumber :: string
  ir_due :: string
  ir_amount :: string
  ir_badgeClass :: string
  ir_badgeText :: string

definition invoiceRow :: "(string \<Rightarrow> string) \<Rightarrow> (string \<Rightarrow> string) \<Rightarrow> Invoice \<Rightarrow> InvoiceRow" where
  "invoiceRow localeDate fixed2 invoice =
     \<lparr> ir_key = i_id invoice,
       ir_invoiceNumber = i_invoiceNumber invoice,
       ir_due = ''Due: '' @ localeDate (i_dueDate invoice),
       ir_amount = ''$'' @ fixed2 (i_amount invoice),
       ir_badgeClass = getStatusColor_dashboard (i_status invoice),
       ir_badgeText = i_status invoice \<rparr>"

definition recentInvoicesShown :: "Invoice list option \<Rightarrow> Invoice list" where
  "recentInvoicesShown invoices =
     (case invoices of None \<Rightarrow> [] | Some xs \<Rightarrow> Array_slice 0 5 xs)"

definition recentInvoicesPanel :: "(string \<Rightarrow> string) \<Rightarrow> (string \<Rightarrow> string) \<Rightarrow> Invoice list option \<Rightarrow> InvoiceRow list" where
  "recentInvoicesPanel localeDate fixed2 invoices =
     map (invoiceRow localeDate fixed2) (recentInvoicesShown invoices)"

text \<open>
  The credentials section (lines 248-416). \<open>{x && <el/>}\<close> renders the element when
  \<open>x\<close> is truthy and nothing otherwise; inside, \<open>x!\<close> is the string. A group of
  actions is a labelled row with its buttons: a copy button (test id, text copied, key
  of the copied field) or an open button (test id, address opened).
\<close>

definition whenTruthy :: "string option \<Rightarrow> (string \<Rightarrow> 'a) \<Rightarrow> 'a list" where
  "whenTruthy x render =
     (case x of None \<Rightarrow> [] | Some s \<Rightarrow> if s = [] then [] else [render s])"

datatype Action = CopyButton string string string | OpenButton string string

record ActionGroup =
  g_label :: string
  g_actions :: "Action list"

record CredentialCard =
  card_key :: string
  card_thumbnail :: "string option"
  card_name :: string
  card_platform :: "string option"
  card_description :: "string option"
  card_links :: "ActionGroup list"
  card_videos :: "ActionGroup list option"

definition credentialCard :: "ProjectCredentials \<Rightarrow> CredentialCard" where
  "credentialCard credential =
     \<lparr> card_key = c_id credential,
       card_thumbnail =
         (if truthy (c_thumbnailUrl credential)
          then Some (''/'' @ nullish (c_thumbnailUrl credential) '''') else None),
       card_name = c_projectName credential,
       card_platform =
         (if truthy (c_hostingPlatform credential) then c_hostingPlatform credential else None),
       card_description =
         (if truthy (c_shortDescription credential) then c_shortDescription credential else None),
       card_links =
         whenTruthy (c_liveLink credential) (\<lambda>liveLink.
           \<lparr> g_label = ''Live Website'',
             g_actions =
               [CopyButton (''button-copy-live-'' @ c_id credential) liveLink
                  (''live-'' @ c_id credential),
                OpenButton (''button-open-live-'' @ c_id credential) liveLink] \<rparr>) @
         whenTruthy (c_adminPanelLink credential) (\<lambda>adminPanelLink.
           \<lparr> g_label = ''Admin Panel'',
             g_actions =
               [CopyButton (''button-copy-admin-'' @ c_id credential) adminPanelLink
                  (''admin-'' @ c_id credential),
                OpenButton (''button-open-admin-'' @ c_id credential) adminPanelLink] \<rparr>) @
         whenTruthy (c_databaseUrl credential) (\<lambda>databaseUrl.
           \<lparr> g_label = ''Database URL'',
             g_actions =
               [CopyButton (''button-copy-db-'' @ c_id credential) databaseUrl
                  (''db-'' @ c_id credential)] \<rparr>) @
         whenTruthy (c_serverCredentials credential) (\<lambda>serverCredentials.
           \<lparr> g_label = ''Server Credentials'',
             g_actions =
               [CopyButton (''button-copy-server-'' @ c_id credential) serverCredentials
                  (''server-'' @ c_id credential)] \<rparr>),
       card_videos =
         (if truthy (c_shortVideoUrl credential) \<or> truthy (c_fullVideoUrl credential)
          then Some
            (whenTruthy (c_shortVideoUrl credential) (\<lambda>shortVideoUrl.
               \<lparr> g_label = ''Presentable Video'',
                 g_actions =
                   [OpenButton (''button-short-video-'' @ c_id credential) shortVideoUrl] \<rparr>) @
             whenTruthy (c_fullVideoUrl credential) (\<lambda>fullVideoUrl.
               \<lparr> g_label = ''Full Features Demo'',
                 g_actions =
                   [OpenButton (''button-full-video-'' @ c_id credential) fullVideoUrl] \<rparr>))
          else None) \<rparr>"

text \<open>
  \<open>credentials && credentials.length > 0 && (..)\<close>: the section, with its heading and
  one card per record, or nothing.
\<close>

definition credentialsSection :: "ProjectCredentials list option \<Rightarrow> CredentialCard list option" where
  "credentialsSection credentials =
     (case credentials of
        None \<Rightarrow> None
      | Some cs \<Rightarrow> if length cs > 0 then Some (map credentialCard cs) else None)"

text \<open>Every group of actions a card shows: the link rows, then the video buttons.\<close>

definition actionGroups :: "CredentialCard \<Rightarrow> ActionGroup list" where
  "actionGroups c =
     card_links c @ (case card_videos c of None \<Rightarrow> [] | Some vs \<Rightarrow> vs)"

section \<open>Properties stated\<close>

text \<open>
  A classification function is total over a set of known statuses when it returns a tag
  other than the default one exactly on the known statuses, and the default tag on
  every other string.
\<close>

definition classifies :: "string list \<Rightarrow> (string \<Rightarrow> string) \<Rightarrow> bool" where
  "classifies known f = (\<forall>s. (f s \<noteq> defaultTag) = (s \<in> set known))"

text \<open>
  Projects of the canonical shape used as concrete inputs: one with every optional
  field absent, one with every optional field set (its deadline stored as a date-time
  string), and that one without its budget.
\<close>

definition blankProject :: Project where
  "blankProject =
     \<lparr> p_id = ''p1'', p_clientId = ''c1'', p_name = ''Site'', p_description = None,
       p_status = ''active'', p_budget = None, p_progress = None, p_deadline = None,
       p_shortVideoUrl = None, p_fullFeatureVideoUrl = None, p_hostingLink = None,
       p_adminLoginLink = None, p_adminUsername = None, p_adminPassword = None,
       p_credentialsNotes = None \<rparr>"



text \<open>The form values \<open>handleEdit\<close> is expected to produce for the two projects.\<close>

definition blankProjectForm :: ProjectFormData where
  "blankProjectForm =
     \<lparr> f_clientId = ''c1'', f_name = ''Site'', f_description = Some '''',
       f_status = ''active'', f_budget = Some ''0'', f_progress = Some 0,
       f_deadline = Some '''', f_shortVideoUrl = Some '''',
       f_fullFeatureVideoUrl = Some '''', f_hostingLink = Some '''',
       f_adminLoginLink = Some '''', f_adminUsername = Some '''',
       f_adminPassword = Some '''', f_credentialsNotes = Some '''' \<rparr>"


text \<open>
  The load direction as the spec words it: whenever \<open>handleEdit\<close> produces a form
  state, each optional field that is absent in the record is the empty string there.
\<close>

definition absentFieldsLoadEmpty :: "Project \<Rightarrow> PageState \<Rightarrow> bool" where
  "absentFieldsLoadEmpty r st =
     (case handleEdit r st of
        Inl e \<Rightarrow> True
      | Inr st' \<Rightarrow>
          (p_description r = None \<longrightarrow> f_description (form st') = Some '''')
          \<and> (p_budget r = None \<longrightarrow> f_budget (form st') = Some '''')
          \<and> (p_deadline r = None \<longrightarrow> f_deadline (form st') = Some '''')
          \<and> (p_shortVideoUrl r = None \<longrightarrow> f_shortVideoUrl (form st') = Some '''')
          \<and> (p_fullFeatureVideoUrl r = None \<longrightarrow> f_fullFeatureVideoUrl (form st') = Some '''')
          \<and> (p_hostingLink r = None \<longrightarrow> f_hostingLink (form st') = Some '''')
          \<and> (p_adminLoginLink r = None \<longrightarrow> f_adminLoginLink (form st') = Some '''')
          \<and> (p_adminUsername r = None \<longrightarrow> f_adminUsername (form st') = Some '''')
          \<and> (p_adminPassword r = None \<longrightarrow> f_adminPassword (form st') = Some '''')
          \<and> (p_credentialsNotes r = None \<longrightarrow> f_credentialsNotes (form st') = Some ''''))"












text \<open>
  The six credential fields of a \<open>ProjectCredentials\<close> record, the value of each, and
  the label of the group of actions the card shows for it.
\<close>

datatype CredentialField =
  LiveLink | AdminPanelLink | DatabaseUrl | ServerCredentials | ShortVideoUrl | FullVideoUrl

fun fieldOf :: "CredentialField \<Rightarrow> ProjectCredentials \<Rightarrow> string option" where
  "fieldOf LiveLink = c_liveLink"
| "fieldOf AdminPanelLink = c_adminPanelLink"
| "fieldOf DatabaseUrl = c_databaseUrl"
| "fieldOf ServerCredentials = c_serverCredentials"
| "fieldOf ShortVideoUrl = c_shortVideoUrl"
| "fieldOf FullVideoUrl = c_fullVideoUrl"

fun groupLabel :: "CredentialField \<Rightarrow> string" where
  "groupLabel LiveLink = ''Live Website''"
| "groupLabel AdminPanelLink = ''Admin Panel''"
| "groupLabel DatabaseUrl = ''Database URL''"
| "groupLabel ServerCredentials = ''Server Credentials''"
| "groupLabel ShortVideoUrl = ''Presentable Video''"
| "groupLabel FullVideoUrl = ''Full Features Demo''"

definition credentialFields :: "CredentialField list" where
  "credentialFields =
     [LiveLink, AdminPanelLink, DatabaseUrl, ServerCredentials, ShortVideoUrl, FullVideoUrl]"

definition liveOnlyCredential :: ProjectCredentials where
  "liveOnlyCredential =
     \<lparr> c_id = ''k1'', c_projectName = ''Shop'', c_thumbnailUrl = None,
       c_hostingPlatform = None, c_shortDescription = None,
       c_liveLink = Some ''https://shop.example'', c_adminPanelLink = None,
       c_databaseUrl = None, c_serverCredentials = None, c_shortVideoUrl = None,
       c_fullVideoUrl = None \<rparr>"

text \<open>
  The group of actions of a credential field set to the value \<open>v\<close> on the card of the
  record with identifier \<open>i\<close>: a link gets a copy button and an open button, the
  database address and the server credentials a copy button, a video an open button,
  each acting on \<open>v\<close>. A field shows its group when it is set to a non-empty string.
\<close>

fun fieldActions :: "string \<Rightarrow> CredentialField \<Rightarrow> string \<Rightarrow> Action list" where
  "fieldActions i LiveLink v =
     [CopyButton (''button-copy-live-'' @ i) v (''live-'' @ i),
      OpenButton (''button-open-live-'' @ i) v]"
| "fieldActions i AdminPanelLink v =
     [CopyButton (''button-copy-admin-'' @ i) v (''admin-'' @ i),
      OpenButton (''button-open-admin-'' @ i) v]"
| "fieldActions i DatabaseUrl v = [CopyButton (''button-copy-db-'' @ i) v (''db-'' @ i)]"
| "fieldActions i ServerCredentials v =
     [CopyButton (''button-copy-server-'' @ i) v (''server-'' @ i)]"
| "fieldActions i ShortVideoUrl v = [OpenButton (''button-short-video-'' @ i) v]"
| "fieldActions i FullVideoUrl v = [OpenButton (''button-full-video-'' @ i) v]"

definition fieldGroup :: "ProjectCredentials \<Rightarrow> CredentialField \<Rightarrow> string \<Rightarrow> ActionGroup" where
  "fieldGroup cr f v = \<lparr> g_label = groupLabel f, g_actions = fieldActions (c_id cr) f v \<rparr>"

definition fieldGroups :: "ProjectCredentials \<Rightarrow> CredentialField \<Rightarrow> ActionGroup list" where
  "fieldGroups cr f =
     (case fieldOf f cr of
        None \<Rightarrow> []
      | Some v \<Rightarrow> if v = [] then [] else [fieldGroup cr f v])"

text \<open>
  The visibility of the groups as the spec words it: the card shows the group of a
  field exactly when the field is present in the record. A record whose live link is
  the empty string, and nothing else set, is the concrete input against it.
\<close>

definition groupsShownIffPresent :: "ProjectCredentials \<Rightarrow> bool" where
  "groupsShownIffPresent cr =
     (\<forall>f. (groupLabel f \<in> set (map g_label (actionGroups (credentialCard cr)))) =
            (fieldOf f cr \<noteq> None))"

definition emptyLiveCredential :: ProjectCredentials where
  "emptyLiveCredential = liveOnlyCredential \<lparr> c_liveLink := Some '''' \<rparr>"

text \<open>
  The KPI cards as the spec words them for absent statistics: whether the fetch is
  still pending or has ended, the grid shows the six cards with zero values.
  \<open>toFixedInt\<close> is \<open>toFixed\<close> on whole amounts, a concrete instance of the parameter.
\<close>

definition zeroKpiCards :: "(string \<times> KpiValue) list" where
  "zeroKpiCards =
     [(''Total Projects'', NumberValue 0), (''Active Projects'', NumberValue 0),
      (''Completed Projects'', NumberValue 0), (''Total Spent'', TextValue ''0.00''),
      (''Pending Amount'', TextValue ''0.00''), (''Paid Invoices'', NumberValue 0)]"

definition toFixedInt :: "int \<Rightarrow> nat \<Rightarrow> string" where
  "toFixedInt x k = showInt x @ (if k = 0 then [] else ''.'' @ replicate k CHR ''0'')"

definition absentStatsShowZeros :: "('n \<Rightarrow> nat \<Rightarrow> string) \<Rightarrow> bool" where
  "absentStatsShowZeros toFixed =
     (kpiGrid toFixed True None = KpiCards zeroKpiCards
      \<and> kpiGrid toFixed False None = KpiCards zeroKpiCards)"

section \<open>Theorems\<close>

subsection \<open>Status classification\<close>

text \<open>
  C3, as stated: each page's \<open>getStatusColor\<close> returns a non-default tag on all eight
  known statuses (project and invoice) and the default tag elsewhere. The projects page
  refutes it: its function has no arm for the invoice statuses, so \<open>"draft"\<close> gets the
  default tag.
\<close>

theorem statusClass_projects_page_counterexample:
  "\<not> classifies (projectStatuses @ invoiceStatuses) getStatusColor_projects"
proof
  assume "classifies (projectStatuses @ invoiceStatuses) getStatusColor_projects"
  then have "(getStatusColor_projects ''draft'' \<noteq> defaultTag)
      = (''draft'' \<in> set (projectStatuses @ invoiceStatuses))"
    unfolding classifies_def by blast
  then show False
    by (simp add: getStatusColor_projects_def defaultTag_def projectStatuses_def
        invoiceStatuses_def)
qed

text \<open>
  C3, amended: the dashboard's \<open>getStatusColor\<close> returns a non-default tag exactly on
  the eight known statuses, the projects page's exactly on the four project statuses;
  on every other string each returns the default tag. Both are total functions of the
  string: the \<open>switch\<close> ends in a \<open>default\<close> arm and nothing throws.
\<close>

theorem statusClass_total_per_page:
  "classifies (projectStatuses @ invoiceStatuses) getStatusColor_dashboard
   \<and> classifies projectStatuses getStatusColor_projects"
  by (simp add: classifies_def getStatusColor_dashboard_def getStatusColor_projects_def
      defaultTag_def projectStatuses_def invoiceStatuses_def)

text \<open>
  C10: the two \<open>getStatusColor\<close> functions are not the same function. On each of
  \<open>"planning"\<close>, \<open>"active"\<close> and \<open>"completed"\<close> they return different tags, neither of
  them the default one, and the projects page's function returns the default tag on
  each of the four invoice statuses.
\<close>

theorem getStatusColor_pages_differ:
  "getStatusColor_dashboard \<noteq> getStatusColor_projects
   \<and> getStatusColor_dashboard ''planning'' \<noteq> getStatusColor_projects ''planning''
   \<and> getStatusColor_dashboard ''planning'' \<noteq> defaultTag
   \<and> getStatusColor_projects ''planning'' \<noteq> defaultTag
   \<and> getStatusColor_dashboard ''active'' \<noteq> getStatusColor_projects ''active''
   \<and> getStatusColor_dashboard ''active'' \<noteq> defaultTag
   \<and> getStatusColor_projects ''active'' \<noteq> defaultTag
   \<and> getStatusColor_dashboard ''completed'' \<noteq> getStatusColor_projects ''completed''
   \<and> getStatusColor_dashboard ''completed'' \<noteq> defaultTag
   \<and> getStatusColor_projects ''completed'' \<noteq> defaultTag
   \<and> getStatusColor_projects ''draft'' = defaultTag
   \<and> getStatusColor_projects ''sent'' = defaultTag
   \<and> getStatusColor_projects ''paid'' = defaultTag
   \<and> getStatusColor_projects ''overdue'' = defaultTag"
proof -
  have "getStatusColor_dashboard ''planning'' \<noteq> getStatusColor_projects ''planning''"
    by (simp add: getStatusColor_dashboard_def getStatusColor_projects_def)
  then have "getStatusColor_dashboard \<noteq> getStatusColor_projects"
    by metis
  then show ?thesis
    by (simp add: getStatusColor_dashboard_def getStatusColor_projects_def defaultTag_def)
qed


subsection \<open>Progress badge\<close>

text \<open>
  With a progress value \<open>n\<close> the badge of the dashboard row and the progress line of
  the project card both read \<open>n\<close> followed by \<open>%\<close>.
\<close>

lemma progress_text_present:
  "p_progress project = Some n \<Longrightarrow>
     pr_badgeText (activeProjectRow project) = showInt n @ ''%''
     \<and> progressText_projects project = showInt n @ ''%''"
  by (simp add: activeProjectRow_def progressText_projects_def renderNumber_def)

lemma progress_text_40: "showInt 40 @ ''%'' = ''40%''"
  by (simp add: showInt_def showNat.simps digitChar_def)

text \<open>
  C4: the badge shows the progress followed by \<open>%\<close>, and \<open>0%\<close> when the progress is
  missing. The code at a project without progress: the bar beside the text gets
  \<open>project.progress ?? 0\<close>, that is 0, but the text is \<open>{project.progress}%\<close> with no
  default, and a missing value renders as nothing, so both pages show \<open>%\<close> alone.
\<close>

theorem progress_text_missing_progress:
  "p_progress blankProject = None
   \<and> pr_badgeText (activeProjectRow blankProject) = ''%''
   \<and> pr_progressBar (activeProjectRow blankProject) = 0
   \<and> progressText_projects blankProject = ''%''
   \<and> progressBar_projects blankProject = 0"
  by (simp add: activeProjectRow_def progressText_projects_def progressBar_projects_def
      renderNumber_def nullish_def blankProject_def)

subsection \<open>KPI cards\<close>

lemma toFixedInt_example: "toFixedInt 100 2 = ''100.00''"
  by (simp add: toFixedInt_def showInt_def showNat.simps digitChar_def numeral_2_eq_2)

text \<open>
  C6, as stated: with no statistics, whether the fetch is still pending or has failed,
  every KPI card displays its zero value. The pending fetch refutes it: while
  \<open>statsLoading\<close> is true the page returns its six placeholders (line 115) and shows no
  KPI card.
\<close>

theorem pending_fetch_counterexample: "\<not> absentStatsShowZeros toFixedInt"
  by (simp add: absentStatsShowZeros_def kpiGrid_def)

text \<open>
  C6, amended: with no statistics the six elements of \<open>kpis\<close> hold 0, 0, 0, \<open>"0.00"\<close>,
  \<open>"0.00"\<close> and 0, whatever \<open>toFixed\<close> does; once loading has ended (the fetch failed
  or gave no data) the grid shows exactly these six cards, and while the fetch is
  pending it shows the six placeholders and no KPI value. Every branch returns a view:
  nothing throws.
\<close>

theorem kpis_absent_stats_all_zero:
  "map kpi_value (kpis toFixed None) =
     [NumberValue 0, NumberValue 0, NumberValue 0,
      TextValue ''0.00'', TextValue ''0.00'', NumberValue 0]
   \<and> kpiGrid toFixed False None =
     KpiCards [(''Total Projects'', NumberValue 0), (''Active Projects'', NumberValue 0),
       (''Completed Projects'', NumberValue 0), (''Total Spent'', TextValue ''0.00''),
       (''Pending Amount'', TextValue ''0.00''), (''Paid Invoices'', NumberValue 0)]
   \<and> kpiGrid toFixed True None = Skeleton [1, 2, 3, 4, 5, 6]"
  by (simp add: kpis_def kpiGrid_def countOrZero_def amountOrZero_def nullish_def)

text \<open>With statistics present the cards show the counts and the amounts through \<open>toFixed\<close>.\<close>

lemma kpis_present_stats:
  "map kpi_value
     (kpis toFixed
        (Some \<lparr> totalProjects = Some 2, activeProjects = Some 1, completedProjects = Some 1,
                totalInvoices = Some 2, totalSpent = Some x, pendingAmount = Some y,
                paidInvoices = Some 1 \<rparr>)) =
     [NumberValue 2, NumberValue 1, NumberValue 1,
      TextValue (toFixed x 2), TextValue (toFixed y 2), NumberValue 1]"
  by (simp add: kpis_def countOrZero_def amountOrZero_def nullish_def)

subsection \<open>Failed mutations\<close>

text \<open>
  C7: the \<open>onError\<close> handler of the create mutation and that of the update mutation
  each add one destructive toast whose description is the error's message, and leave
  \<open>open\<close>, \<open>editingProject\<close>, \<open>showPassword\<close> and the form's values as they were: an
  open dialog stays open with the user's input.
\<close>

theorem mutation_onError_keeps_form_state:
  "open (createMutation_onError m st) = open st
   \<and> editingProject (createMutation_onError m st) = editingProject st
   \<and> showPassword (createMutation_onError m st) = showPassword st
   \<and> form (createMutation_onError m st) = form st
   \<and> toasts (createMutation_onError m st) =
       toasts st @ [\<lparr> t_title = ''Error'', t_description = Some m,
                      t_variant = Some ''destructive'' \<rparr>]
   \<and> open (updateMutation_onError m st) = open st
   \<and> editingProject (updateMutation_onError m st) = editingProject st
   \<and> showPassword (updateMutation_onError m st) = showPassword st
   \<and> form (updateMutation_onError m st) = form st
   \<and> toasts (updateMutation_onError m st) =
       toasts st @ [\<lparr> t_title = ''Error'', t_description = Some m,
                      t_variant = Some ''destructive'' \<rparr>]"
  by (simp add: createMutation_onError_def updateMutation_onError_def)

subsection \<open>List panels\<close>

lemma Array_slice_from_0: "Array_slice 0 (int k) xs = take k xs"
  by (simp add: Array_slice_def Let_def min_def)

text \<open>
  C8: the "Active Projects" panel shows one row for each of the first at most five
  projects whose status is \<open>"active"\<close>, in the order of the input (a subsequence of it);
  the "Recent Invoices" panel shows one row for each of the first at most five invoices,
  a prefix of the input.
\<close>

theorem list_panels_bounded_slices:
  "activeProjectsShown (Some ps) = take 5 (filter (\<lambda>p. p_status p = ''active'') ps)
   \<and> activeProjectsPanel (Some ps) =
       map activeProjectRow (take 5 (filter (\<lambda>p. p_status p = ''active'') ps))
   \<and> subseq (activeProjectsShown (Some ps)) ps
   \<and> length (activeProjectsShown (Some ps)) =
       min 5 (length (filter (\<lambda>p. p_status p = ''active'') ps))
   \<and> recentInvoicesShown (Some xs) = take 5 xs
   \<and> recentInvoicesPanel localeDate fixed2 (Some xs) =
       map (invoiceRow localeDate fixed2) (take 5 xs)
   \<and> prefix (recentInvoicesShown (Some xs)) xs"
proof -
  have s: "\<And>ys::'a list. Array_slice 0 5 ys = take 5 ys"
    using Array_slice_from_0 [of 5] by simp
  have a: "activeProjectsShown (Some ps) = take 5 (filter (\<lambda>p. p_status p = ''active'') ps)"
    by (simp add: activeProjectsShown_def s)
  have i: "recentInvoicesShown (Some xs) = take 5 xs"
    by (simp add: recentInvoicesShown_def s)
  have sub: "subseq (take 5 (filter (\<lambda>p. p_status p = ''active'') ps)) ps"
    by (metis subseq_filter_left subseq_order.order_trans prefix_imp_subseq take_is_prefix)
  show ?thesis
    using sub by (simp add: a i activeProjectsPanel_def recentInvoicesPanel_def take_is_prefix)
qed

subsection \<open>Password masking\<close>

text \<open>
  \<open>handleAddNew\<close> and \<open>handleEdit\<close> both set \<open>showPassword\<close> to \<open>false\<close> and open the
  dialog: after either, the password input is of type \<open>password\<close>, while the form holds
  the project's password as it is.
\<close>

lemma handleAddNew_masks:
  "showPassword (handleAddNew st) = False \<and> open (handleAddNew st)
   \<and> passwordInputType (handleAddNew st) = ''password''"
  by (simp add: handleAddNew_def passwordInputType_def)

lemma handleEdit_masks:
  "handleEdit project st = Inr st' \<Longrightarrow>
     showPassword st' = False \<and> open st' \<and> passwordInputType st' = ''password''
     \<and> passwordInputValue st' = orElse (p_adminPassword project) ''''"
  by (auto simp add: handleEdit_def passwordInputType_def passwordInputValue_def nullish_def
      split: sum.splits)

text \<open>
  C9: every path that opens the dialog resets \<open>showPassword\<close>, so the password is
  masked whenever the dialog appears. The code has a third path: with no projects the
  page shows the empty state, whose "Add Project" button calls \<open>setOpen(true)\<close>
  alone. Open the dialog with it, type a password, reveal it, cancel, and press the
  button again: the dialog appears with the input of type \<open>text\<close>, showing the password.
\<close>

theorem empty_state_button_reopens_unmasked:
  "emptyStateShown (Some [])
   \<and> open (emptyStateAddClick (cancelClick (togglePasswordClick
        (passwordInputChange ''s3cret'' (emptyStateAddClick initialState)))))
   \<and> passwordInputType (emptyStateAddClick (cancelClick (togglePasswordClick
        (passwordInputChange ''s3cret'' (emptyStateAddClick initialState))))) = ''text''
   \<and> passwordInputValue (emptyStateAddClick (cancelClick (togglePasswordClick
        (passwordInputChange ''s3cret'' (emptyStateAddClick initialState))))) = ''s3cret''"
  by (simp add: emptyStateShown_def emptyStateAddClick_def cancelClick_def
      togglePasswordClick_def passwordInputChange_def initialState_def
      passwordInputType_def passwordInputValue_def nullish_def)

subsection \<open>Credential cards\<close>

lemma labels_whenTruthy:
  "map g_label (whenTruthy x (\<lambda>v. \<lparr> g_label = l, g_actions = a v \<rparr>)) =
     (if truthy x then [l] else [])"
  by (simp add: whenTruthy_def truthy_def split: option.splits)

lemma group_labels:
  "map g_label (actionGroups (credentialCard cr)) =
     map groupLabel (filter (\<lambda>f. truthy (fieldOf f cr)) credentialFields)"
  by (simp add: actionGroups_def credentialCard_def labels_whenTruthy credentialFields_def)

lemma group_shown_iff:
  "(groupLabel f \<in> set (map g_label (actionGroups (credentialCard cr)))) =
     truthy (fieldOf f cr)"
  unfolding group_labels by (cases f) (auto simp add: credentialFields_def)

lemma videos_row:
  "(card_videos (credentialCard cr) = None) =
      (\<not> truthy (c_shortVideoUrl cr) \<and> \<not> truthy (c_fullVideoUrl cr))
   \<and> card_videos (credentialCard cr) \<noteq> Some []"
  by (auto simp add: credentialCard_def whenTruthy_def truthy_def split: option.splits)

lemma live_only_groups:
  "actionGroups (credentialCard liveOnlyCredential) =
     [\<lparr> g_label = ''Live Website'',
        g_actions = [CopyButton ''button-copy-live-k1'' ''https://shop.example'' ''live-k1'',
                     OpenButton ''button-open-live-k1'' ''https://shop.example''] \<rparr>]"
  by (simp add: actionGroups_def credentialCard_def liveOnlyCredential_def whenTruthy_def
      truthy_def)

lemma live_groups:
  "whenTruthy (c_liveLink cr) (\<lambda>liveLink.
       \<lparr> g_label = ''Live Website'',
         g_actions =
           [CopyButton (''button-copy-live-'' @ c_id cr) liveLink (''live-'' @ c_id cr),
            OpenButton (''button-open-live-'' @ c_id cr) liveLink] \<rparr>) =
     fieldGroups cr LiveLink"
  by (cases "c_liveLink cr") (simp_all add: whenTruthy_def fieldGroups_def fieldGroup_def)

lemma admin_groups:
  "whenTruthy (c_adminPanelLink cr) (\<lambda>adminPanelLink.
       \<lparr> g_label = ''Admin Panel'',
         g_actions =
           [CopyButton (''button-copy-admin-'' @ c_id cr) adminPanelLink (''admin-'' @ c_id cr),
            OpenButton (''button-open-admin-'' @ c_id cr) adminPanelLink] \<rparr>) =
     fieldGroups cr AdminPanelLink"
  by (cases "c_adminPanelLink cr") (simp_all add: whenTruthy_def fieldGroups_def fieldGroup_def)

lemma db_groups:
  "whenTruthy (c_databaseUrl cr) (\<lambda>databaseUrl.
       \<lparr> g_label = ''Database URL'',
         g_actions =
           [CopyButton (''button-copy-db-'' @ c_id cr) databaseUrl (''db-'' @ c_id cr)] \<rparr>) =
     fieldGroups cr DatabaseUrl"
  by (cases "c_databaseUrl cr") (simp_all add: whenTruthy_def fieldGroups_def fieldGroup_def)

lemma server_groups:
  "whenTruthy (c_serverCredentials cr) (\<lambda>serverCredentials.
       \<lparr> g_label = ''Server Credentials'',
         g_actions =
           [CopyButton (''button-copy-server-'' @ c_id cr) serverCredentials
              (''server-'' @ c_id cr)] \<rparr>) =
     fieldGroups cr ServerCredentials"
  by (cases "c_serverCredentials cr")
    (simp_all add: whenTruthy_def fieldGroups_def fieldGroup_def)

lemma short_groups:
  "whenTruthy (c_shortVideoUrl cr) (\<lambda>shortVideoUrl.
       \<lparr> g_label = ''Presentable Video'',
         g_actions = [OpenButton (''button-short-video-'' @ c_id cr) shortVideoUrl] \<rparr>) =
     fieldGroups cr ShortVideoUrl"
  by (cases "c_shortVideoUrl cr") (simp_all add: whenTruthy_def fieldGroups_def fieldGroup_def)

lemma full_groups:
  "whenTruthy (c_fullVideoUrl cr) (\<lambda>fullVideoUrl.
       \<lparr> g_label = ''Full Features Demo'',
         g_actions = [OpenButton (''button-full-video-'' @ c_id cr) fullVideoUrl] \<rparr>) =
     fieldGroups cr FullVideoUrl"
  by (cases "c_fullVideoUrl cr") (simp_all add: whenTruthy_def fieldGroups_def fieldGroup_def)

lemma card_links_groups:
  "card_links (credentialCard cr) =
     fieldGroups cr LiveLink @ fieldGroups cr AdminPanelLink @
     fieldGroups cr DatabaseUrl @ fieldGroups cr ServerCredentials"
  unfolding credentialCard_def live_groups admin_groups db_groups server_groups
  by simp

lemma card_videos_groups:
  "card_videos (credentialCard cr) =
     (if truthy (c_shortVideoUrl cr) \<or> truthy (c_fullVideoUrl cr)
      then Some (fieldGroups cr ShortVideoUrl @ fieldGroups cr FullVideoUrl) else None)"
  unfolding credentialCard_def short_groups full_groups
  by simp

lemma fieldGroups_empty: "(fieldGroups cr f = []) = (\<not> truthy (fieldOf f cr))"
  by (simp add: fieldGroups_def truthy_def split: option.splits)

lemma actionGroups_groups:
  "actionGroups (credentialCard cr) = concat (map (fieldGroups cr) credentialFields)"
proof -
  have v: "(case card_videos (credentialCard cr) of None \<Rightarrow> [] | Some vs \<Rightarrow> vs) =
      fieldGroups cr ShortVideoUrl @ fieldGroups cr FullVideoUrl"
    using fieldGroups_empty [of cr ShortVideoUrl] fieldGroups_empty [of cr FullVideoUrl]
    by (simp add: card_videos_groups)
  show ?thesis
    by (simp add: actionGroups_def card_links_groups v credentialFields_def)
qed

lemma fieldGroup_eq:
  "(fieldGroup cr f v = fieldGroup cr f' v') = (f = f' \<and> v = v')"
  by (cases f; cases f'; simp add: fieldGroup_def)

lemma fieldGroup_in_fieldGroups:
  "(fieldGroup cr f v \<in> set (fieldGroups cr f')) =
     (f' = f \<and> fieldOf f cr = Some v \<and> v \<noteq> [])"
proof (cases "fieldOf f' cr")
  case None
  then show ?thesis by (auto simp add: fieldGroups_def)
next
  case (Some v')
  then show ?thesis by (auto simp add: fieldGroups_def fieldGroup_eq)
qed

lemma fieldGroup_shown_iff:
  "(fieldGroup cr f v \<in> set (actionGroups (credentialCard cr))) =
     (fieldOf f cr = Some v \<and> v \<noteq> [])"
  unfolding actionGroups_groups
  by (cases f) (simp_all add: credentialFields_def fieldGroup_in_fieldGroups)

text \<open>
  C5, as stated: the card shows the group of actions of a credential field exactly when
  the field is present in the record. The record whose live link is the empty string
  refutes it: the field is there, and the card shows no group at all, since the page
  renders a group only for a truthy field.
\<close>

theorem empty_live_link_counterexample:
  "c_liveLink emptyLiveCredential = Some ''''
   \<and> actionGroups (credentialCard emptyLiveCredential) = []
   \<and> \<not> groupsShownIffPresent emptyLiveCredential"
proof -
  have a: "actionGroups (credentialCard emptyLiveCredential) = []"
    by (simp add: actionGroups_def credentialCard_def emptyLiveCredential_def
        liveOnlyCredential_def whenTruthy_def truthy_def)
  have l: "c_liveLink emptyLiveCredential = Some ''''"
    by (simp add: emptyLiveCredential_def)
  have "\<not> groupsShownIffPresent emptyLiveCredential"
  proof
    assume "groupsShownIffPresent emptyLiveCredential"
    then have "(groupLabel LiveLink \<in> set (map g_label (actionGroups (credentialCard emptyLiveCredential))))
        = (fieldOf LiveLink emptyLiveCredential \<noteq> None)"
      unfolding groupsShownIffPresent_def by blast
    then show False by (simp add: a l)
  qed
  with a l show ?thesis by simp
qed

text \<open>
  C5, amended: for every \<open>ProjectCredentials\<close> record and each of its six credential
  fields, the card contains the group of actions of that field, with its label and its
  copy and open buttons acting on the field's value, exactly when the field is set to a
  non-empty string. The groups shown are those of the fields so set, in the order of
  the page, whatever subset is set: the four link rows, then the row of video buttons,
  which is there exactly when a video is set and is never empty. Without credential
  records (none fetched, or an empty list) there is no section at all, and otherwise
  one card per record; and the record with only \<open>liveLink\<close> set shows exactly one
  group, that of the live link.
\<close>

theorem credential_groups_follow_fields:
  "(fieldGroup cr f v \<in> set (actionGroups (credentialCard cr))) =
      (fieldOf f cr = Some v \<and> v \<noteq> [])
   \<and> (groupLabel f \<in> set (map g_label (actionGroups (credentialCard cr)))) =
      truthy (fieldOf f cr)
   \<and> actionGroups (credentialCard cr) = concat (map (fieldGroups cr) credentialFields)
   \<and> map g_label (actionGroups (credentialCard cr)) =
      map groupLabel (filter (\<lambda>f. truthy (fieldOf f cr)) credentialFields)
   \<and> card_links (credentialCard cr) =
      fieldGroups cr LiveLink @ fieldGroups cr AdminPanelLink @
      fieldGroups cr DatabaseUrl @ fieldGroups cr ServerCredentials
   \<and> card_videos (credentialCard cr) =
      (if truthy (c_shortVideoUrl cr) \<or> truthy (c_fullVideoUrl cr)
       then Some (fieldGroups cr ShortVideoUrl @ fieldGroups cr FullVideoUrl) else None)
   \<and> card_videos (credentialCard cr) \<noteq> Some []
   \<and> credentialsSection None = None
   \<and> credentialsSection (Some []) = None
   \<and> credentialsSection (Some (c # cs)) = Some (map credentialCard (c # cs))
   \<and> actionGroups (credentialCard liveOnlyCredential) =
      [\<lparr> g_label = ''Live Website'',
         g_actions = [CopyButton ''button-copy-live-k1'' ''https://shop.example'' ''live-k1'',
                      OpenButton ''button-open-live-k1'' ''https://shop.example''] \<rparr>]"
proof -
  have s: "credentialsSection None = None \<and> credentialsSection (Some []) = None
      \<and> credentialsSection (Some (c # cs)) = Some (map credentialCard (c # cs))"
    by (simp add: credentialsSection_def)
  show ?thesis
    using fieldGroup_shown_iff [of cr f v] group_shown_iff [of f cr] actionGroups_groups [of cr]
      group_labels [of cr]
      card_links_groups [of cr] card_videos_groups [of cr] videos_row [of cr] s live_only_groups
    by blast
qed

subsection \<open>Loading a project into the edit form\<close>












lemma replicate_two: "replicate 2 x = [x, x]"
  by (simp add: numeral_2_eq_2)

lemma toISOString_example:
  "toISOString (UtcDate 2025 3 1 23 59 58 7) = Inr ''2025-03-01T23:59:58.007Z''"
  by (simp add: toISOString_def isoYear_def padZero_def showNat.simps digitChar_def
      replicate_two)

lemma editDeadline_example:
  "editDeadline (Some (DeadlineDate (UtcDate 2025 3 1 23 59 58 7))) = Inr (Some ''2025-03-01'')"
  by (simp add: editDeadline_def toISOString_def isoYear_def padZero_def showNat.simps
      digitChar_def replicate_two)

lemma editDeadline_invalid: "editDeadline (Some (DeadlineDate InvalidDate)) = Inl RangeError"
  by (simp add: editDeadline_def toISOString_def)

text \<open>The form that \<open>handleEdit\<close> leaves, and the two concrete loads.\<close>

lemma handleEdit_form:
  assumes "handleEdit r st = Inr st'"
  shows "\<exists>dl. editDeadline (p_deadline r) = Inr dl \<and> editingProject st' = Some r \<and>
     form st' =
        \<lparr> f_clientId = p_clientId r, f_name = p_name r,
          f_description = Some (orElse (p_description r) ''''), f_status = p_status r,
          f_budget = Some (orElse (p_budget r) ''0''),
          f_progress = Some (nullish (p_progress r) 0), f_deadline = dl,
          f_shortVideoUrl = Some (orElse (p_shortVideoUrl r) ''''),
          f_fullFeatureVideoUrl = Some (orElse (p_fullFeatureVideoUrl r) ''''),
          f_hostingLink = Some (orElse (p_hostingLink r) ''''),
          f_adminLoginLink = Some (orElse (p_adminLoginLink r) ''''),
          f_adminUsername = Some (orElse (p_adminUsername r) ''''),
          f_adminPassword = Some (orElse (p_adminPassword r) ''''),
          f_credentialsNotes = Some (orElse (p_credentialsNotes r) '''') \<rparr>"
proof (cases "editDeadline (p_deadline r)")
  case (Inl e)
  with assms show ?thesis by (simp add: handleEdit_def)
next
  case (Inr dl)
  with assms have "st' = st \<lparr> editingProject := Some r, showPassword := False,
        form := \<lparr> f_clientId = p_clientId r, f_name = p_name r,
          f_description = Some (orElse (p_description r) ''''), f_status = p_status r,
          f_budget = Some (orElse (p_budget r) ''0''),
          f_progress = Some (nullish (p_progress r) 0), f_deadline = dl,
          f_shortVideoUrl = Some (orElse (p_shortVideoUrl r) ''''),
          f_fullFeatureVideoUrl = Some (orElse (p_fullFeatureVideoUrl r) ''''),
          f_hostingLink = Some (orElse (p_hostingLink r) ''''),
          f_adminLoginLink = Some (orElse (p_adminLoginLink r) ''''),
          f_adminUsername = Some (orElse (p_adminUsername r) ''''),
          f_adminPassword = Some (orElse (p_adminPassword r) ''''),
          f_credentialsNotes = Some (orElse (p_credentialsNotes r) '''') \<rparr>,
        open := True \<rparr>"
    by (simp add: handleEdit_def)
  then show ?thesis using Inr by simp
qed

lemma handleEdit_blankProject:
  "handleEdit blankProject initialState =
     Inr (initialState \<lparr> editingProject := Some blankProject, showPassword := False,
                          form := blankProjectForm, open := True \<rparr>)"
  by (simp add: handleEdit_def editDeadline_def blankProject_def blankProjectForm_def
      orElse_def nullish_def)


text \<open>
  C2, as stated: every optional field that is absent in the record, the budget among
  them, is the empty string in the form state of \<open>handleEdit\<close>. The project with no
  optional field set refutes it: its budget is absent and the form's budget is \<open>"0"\<close>.
\<close>

theorem absent_budget_counterexample:
  "\<not> absentFieldsLoadEmpty blankProject initialState"
proof -
  have "p_budget blankProject = None"
    by (simp add: blankProject_def)
  moreover have "f_budget blankProjectForm \<noteq> Some ''''"
    by (simp add: blankProjectForm_def)
  ultimately show ?thesis
    by (simp add: absentFieldsLoadEmpty_def handleEdit_blankProject)
qed

text \<open>
  C2, amended: in the form state that \<open>handleEdit\<close> produces, an absent description,
  deadline, video address, hosting link, admin link, admin user name, admin password or
  credentials note is the empty string, and an absent budget is \<open>"0"\<close>; none of them is
  undefined.
\<close>

theorem handleEdit_absent_fields:
  assumes "handleEdit r st = Inr st'"
  shows "(p_description r = None \<longrightarrow> f_description (form st') = Some '''')
     \<and> (p_budget r = None \<longrightarrow> f_budget (form st') = Some ''0'')
     \<and> (p_deadline r = None \<longrightarrow> f_deadline (form st') = Some '''')
     \<and> (p_shortVideoUrl r = None \<longrightarrow> f_shortVideoUrl (form st') = Some '''')
     \<and> (p_fullFeatureVideoUrl r = None \<longrightarrow> f_fullFeatureVideoUrl (form st') = Some '''')
     \<and> (p_hostingLink r = None \<longrightarrow> f_hostingLink (form st') = Some '''')
     \<and> (p_adminLoginLink r = None \<longrightarrow> f_adminLoginLink (form st') = Some '''')
     \<and> (p_adminUsername r = None \<longrightarrow> f_adminUsername (form st') = Some '''')
     \<and> (p_adminPassword r = None \<longrightarrow> f_adminPassword (form st') = Some '''')
     \<and> (p_credentialsNotes r = None \<longrightarrow> f_credentialsNotes (form st') = Some '''')"
proof -
  obtain dl where dl: "editDeadline (p_deadline r) = Inr dl"
    and f: "form st' =
        \<lparr> f_clientId = p_clientId r, f_name = p_name r,
          f_description = Some (orElse (p_description r) ''''), f_status = p_status r,
          f_budget = Some (orElse (p_budget r) ''0''),
          f_progress = Some (nullish (p_progress r) 0), f_deadline = dl,
          f_shortVideoUrl = Some (orElse (p_shortVideoUrl r) ''''),
          f_fullFeatureVideoUrl = Some (orElse (p_fullFeatureVideoUrl r) ''''),
          f_hostingLink = Some (orElse (p_hostingLink r) ''''),
          f_adminLoginLink = Some (orElse (p_adminLoginLink r) ''''),
          f_adminUsername = Some (orElse (p_adminUsername r) ''''),
          f_adminPassword = Some (orElse (p_adminPassword r) ''''),
          f_credentialsNotes = Some (orElse (p_credentialsNotes r) '''') \<rparr>"
    using handleEdit_form [OF assms] by blast
  have a: "\<And>x d. x = None \<longrightarrow> orElse x d = d"
    by (simp add: orElse_def)
  have d: "p_deadline r = None \<longrightarrow> dl = Some ''''"
    using dl by (auto simp add: editDeadline_def)
  show ?thesis
    unfolding f using a d by simp
qed

text \<open>
  C2, witness: the project with no optional field set loads, every one of the ten
  fields is absent in it, and the form holds \<open>""\<close> for nine of them and \<open>"0"\<close> for the
  budget.
\<close>

theorem handleEdit_absent_fields_witness:
  "handleEdit blankProject initialState =
     Inr (initialState \<lparr> editingProject := Some blankProject, showPassword := False,
                          form := blankProjectForm, open := True \<rparr>)
   \<and> p_description blankProject = None \<and> f_description blankProjectForm = Some ''''
   \<and> p_budget blankProject = None \<and> f_budget blankProjectForm = Some ''0''
   \<and> p_deadline blankProject = None \<and> f_deadline blankProjectForm = Some ''''
   \<and> p_shortVideoUrl blankProject = None \<and> f_shortVideoUrl blankProjectForm = Some ''''
   \<and> p_fullFeatureVideoUrl blankProject = None
   \<and> f_fullFeatureVideoUrl blankProjectForm = Some ''''
   \<and> p_hostingLink blankProject = None \<and> f_hostingLink blankProjectForm = Some ''''
   \<and> p_adminLoginLink blankProject = None \<and> f_adminLoginLink blankProjectForm = Some ''''
   \<and> p_adminUsername blankProject = None \<and> f_adminUsername blankProjectForm = Some ''''
   \<and> p_adminPassword blankProject = None \<and> f_adminPassword blankProjectForm = Some ''''
   \<and> p_credentialsNotes blankProject = None
   \<and> f_credentialsNotes blankProjectForm = Some ''''"
proof -
  have absent: "p_description blankProject = None \<and> p_budget blankProject = None
      \<and> p_deadline blankProject = None \<and> p_shortVideoUrl blankProject = None
      \<and> p_fullFeatureVideoUrl blankProject = None \<and> p_hostingLink blankProject = None
      \<and> p_adminLoginLink blankProject = None \<and> p_adminUsername blankProject = None
      \<and> p_adminPassword blankProject = None \<and> p_credentialsNotes blankProject = None"
    by (simp add: blankProject_def)
  show ?thesis
    using handleEdit_absent_fields [OF handleEdit_blankProject] absent
    by (simp add: handleEdit_blankProject)
qed

subsection \<open>Loading and saving without edits\<close>
















end
